theory Spec2Isabelle
  imports Main
begin

section \<open>Data model of main.go\<close>

text \<open>
  The structs of main.go. \<open>Maintainers\<close> is \<^verbatim>\<open>[]*Maintainer\<close>: a slice of pointers,
  so an element may be nil (\<open>None\<close>); \<open>Charts\<close> is a slice of values. The values of
  \<open>IndexFile.Entries\<close> are \<^verbatim>\<open>interface{}\<close> and are never inspected, so their type is
  a parameter. A nil map and an empty map behave alike under \<open>len\<close>, \<open>range\<close>, lookup and
  \<open>delete\<close>; both are \<open>Map.empty\<close>.
\<close>

record Contact =
  Email :: string
  SlackChannel :: string
  URL :: string

record Chart =
  Name :: string
  GenerateIssue :: bool
  GithubLabels :: "string list"

record Maintainer =
  MaintainerName :: string
  MaintainerContact :: Contact
  Charts :: "Chart list"

type_synonym Maintainers = "Maintainer option list"

record 'v IndexFile =
  Entries :: "string \<rightharpoonup> 'v"

text \<open>
  Every line the program writes to standard output, one constructor per print statement
  of \<open>validateMaintainersFile\<close>, carrying the arguments of that statement:
  \<^item> \<open>DecodeError err\<close>: \<^verbatim>\<open>fmt.Println(err)\<close> after either decode call;
  \<^item> \<open>InvalidCrdIssueFlag name generateIssue\<close>: the "crd chart ... has field" line;
  \<^item> \<open>DuplicateLabel name label\<close>: the "has duplicate label" line;
  \<^item> \<open>DuplicateChartOwnership name\<close>: the "is a duplicate or wrongly set" line;
  \<^item> \<open>EmptyIndex path\<close>: the "has no chart entries" line;
  \<^item> \<open>MissingFromMaintainers name path\<close>: the "is missing from maintainers file" line;
  \<^item> \<open>MissingFromIndex name path\<close>: the "does not exist in index file" line.
\<close>

datatype line =
    DecodeError string
  | InvalidCrdIssueFlag string bool
  | DuplicateLabel string string
  | DuplicateChartOwnership string
  | EmptyIndex string
  | MissingFromMaintainers string string
  | MissingFromIndex string string

text \<open>
  The text of each line. The empty-index statement calls \<^verbatim>\<open>fmt.Println\<close> with a
  format string, so the verb is printed as it stands and the path follows after a space.
\<close>

definition render :: "line \<Rightarrow> string" where
  "render l = (case l of
      DecodeError err \<Rightarrow> err @ [CHR 0x0A]
    | InvalidCrdIssueFlag name g \<Rightarrow>
        ''error: crd chart ['' @ name @ ''] has field [generateIssue: ''
          @ (if g then ''true'' else ''false'')
          @ ''] which is incorrect as crd charts are not tracked in issues separately ''
          @ [CHR 0x0A]
    | DuplicateLabel name label \<Rightarrow>
        ''error: chart ['' @ name @ ''] has duplicate label ['' @ label @ '']'' @ [CHR 0x0A]
    | DuplicateChartOwnership name \<Rightarrow>
        ''error: chart ['' @ name
          @ ''] is a duplicate or wrongly set as maintained by more than one team''
          @ [CHR 0x0A]
    | EmptyIndex path \<Rightarrow>
        ''error: index file [%s] has no chart entries '' @ path @ [CHR 0x0A]
    | MissingFromMaintainers name path \<Rightarrow>
        ''error: chart ['' @ name @ ''] is missing from maintainers file ['' @ path @ '']''
          @ [CHR 0x0A]
    | MissingFromIndex name path \<Rightarrow>
        ''error: chart ['' @ name @ ''] does not exist in index file ['' @ path @ '']''
          @ [CHR 0x0A])"

text \<open>How a call of \<open>validateMaintainersFile\<close> ends: it returns its \<open>error\<close> result
  (\<open>None\<close> is nil), or it panics on a nil pointer; either way with the lines printed
  until then.\<close>

datatype run =
    Returned "string option" "line list"
  | Panicked "line list"

fun printedOf :: "run \<Rightarrow> line list" where
  "printedOf (Returned err out) = out"
| "printedOf (Panicked out) = out"

section \<open>The validator\<close>

text \<open>\<^verbatim>\<open>strings.HasSuffix\<close> of the Go library:
  \<^verbatim>\<open>len(s) >= len(suffix) && s[len(s)-len(suffix):] == suffix\<close>.\<close>

definition HasSuffix :: "string \<Rightarrow> string \<Rightarrow> bool" where
  "HasSuffix s suffix \<longleftrightarrow>
     length suffix \<le> length s \<and> drop (length s - length suffix) s = suffix"

text \<open>The two sets built while the maintainers are read, and the output so far.\<close>

record vstate =
  maintainersCharts :: "string set"
  duplicateCharts :: "string set"
  printed :: "line list"

text \<open>The loop over \<open>chart.GithubLabels\<close>; \<open>duplicateLabels\<close> is the set of labels
  seen so far in this chart.\<close>

fun labelsLoop :: "string \<Rightarrow> string list \<Rightarrow> string set \<Rightarrow> line list \<Rightarrow> line list" where
  "labelsLoop name [] duplicateLabels out = out"
| "labelsLoop name (label # rest) duplicateLabels out =
     labelsLoop name rest (insert label duplicateLabels)
       (if label \<in> duplicateLabels then out @ [DuplicateLabel name label] else out)"

text \<open>The body of the loop over \<open>m.Charts\<close>.\<close>

definition chartBody :: "Chart \<Rightarrow> vstate \<Rightarrow> vstate" where
  "chartBody chart st =
     (let out1 = (if HasSuffix (Name chart) ''-crd'' \<and> GenerateIssue chart
                  then printed st @ [InvalidCrdIssueFlag (Name chart) (GenerateIssue chart)]
                  else printed st);
          out2 = labelsLoop (Name chart) (GithubLabels chart) {} out1;
          fresh = (Name chart \<in> maintainersCharts st \<and> Name chart \<notin> duplicateCharts st)
      in \<lparr> maintainersCharts = insert (Name chart) (maintainersCharts st),
           duplicateCharts = (if fresh then insert (Name chart) (duplicateCharts st)
                              else duplicateCharts st),
           printed = (if fresh then out2 @ [DuplicateChartOwnership (Name chart)]
                      else out2) \<rparr>)"

fun chartsLoop :: "Chart list \<Rightarrow> vstate \<Rightarrow> vstate" where
  "chartsLoop [] st = st"
| "chartsLoop (chart # rest) st = chartsLoop rest (chartBody chart st)"

text \<open>The loop over \<open>maintainers\<close>. Reading \<open>m.Charts\<close> through a nil pointer panics:
  \<open>Inl\<close> carries the lines printed before the panic.\<close>

fun maintainersLoop :: "Maintainers \<Rightarrow> vstate \<Rightarrow> line list + vstate" where
  "maintainersLoop [] st = Inr st"
| "maintainersLoop (None # rest) st = Inl (printed st)"
| "maintainersLoop (Some m # rest) st = maintainersLoop rest (chartsLoop (Charts m) st)"

text \<open>
  Go enumerates a map in an order of the runtime's choosing. The order of each of the two
  \<open>range\<close> loops over a map is an argument of the model: a list of keys, which
  \<open>rangeOrder\<close> requires to hold every key of the map once.
\<close>

definition rangeOrder :: "string list \<Rightarrow> string set \<Rightarrow> bool" where
  "rangeOrder ks S \<longleftrightarrow> distinct ks \<and> set ks = S"

text \<open>The loop over \<open>index.Entries\<close>, in the order \<open>ks\<close>.\<close>

fun indexLoop :: "string list \<Rightarrow> string set \<Rightarrow> string \<Rightarrow> line list \<Rightarrow> line list" where
  "indexLoop [] mcharts maintainersFilePath out = out"
| "indexLoop (chartName # ks) mcharts maintainersFilePath out =
     indexLoop ks mcharts maintainersFilePath
       (if chartName \<notin> mcharts then out @ [MissingFromMaintainers chartName maintainersFilePath]
        else out)"

text \<open>The loop over \<open>maintainersCharts\<close>, in the order \<open>ks\<close>; each round deletes its
  key from \<open>index.Entries\<close>.\<close>

fun chartsInIndexLoop ::
  "string list \<Rightarrow> (string \<rightharpoonup> 'v) \<Rightarrow> string \<Rightarrow> line list \<Rightarrow> line list" where
  "chartsInIndexLoop [] entries indexFilePath out = out"
| "chartsInIndexLoop (chartName # ks) entries indexFilePath out =
     chartsInIndexLoop ks (entries(chartName := None)) indexFilePath
       (if entries chartName = None then out @ [MissingFromIndex chartName indexFilePath]
        else out)"

text \<open>
  \<open>validateMaintainersFile\<close>. The results of the two decode calls are arguments
  (\<open>Inl\<close> is the error; the decoders return a nil slice, respectively a nil pointer, with
  it), and so are the enumeration orders \<open>ks1\<close> of \<open>index.Entries\<close> and \<open>ks2\<close> of
  \<open>maintainersCharts\<close>. After a failed decode of the index, \<open>index\<close> is nil and
  \<open>index.Entries\<close> panics. The only \<open>return\<close> statement returns nil.
\<close>

definition validateMaintainersFile ::
  "string + Maintainers \<Rightarrow> string + 'v IndexFile \<Rightarrow> string list \<Rightarrow> string list
     \<Rightarrow> string \<Rightarrow> string \<Rightarrow> run" where
  "validateMaintainersFile decodedMaintainers decodedIndex ks1 ks2
       maintainersFilePath indexFilePath =
     (let (maintainers, out0) =
            (case decodedMaintainers of
               Inl err \<Rightarrow> ([], [DecodeError err])
             | Inr ms \<Rightarrow> (ms, []))
      in case maintainersLoop maintainers
                \<lparr> maintainersCharts = {}, duplicateCharts = {}, printed = out0 \<rparr> of
           Inl out \<Rightarrow> Panicked out
         | Inr st \<Rightarrow>
            (case decodedIndex of
               Inl err \<Rightarrow> Panicked (printed st @ [DecodeError err])
             | Inr index \<Rightarrow>
                (let out1 = (if dom (Entries index) = {}
                             then printed st @ [EmptyIndex indexFilePath]
                             else printed st);
                     out2 = indexLoop ks1 (maintainersCharts st) maintainersFilePath out1;
                     out3 = chartsInIndexLoop ks2 (Entries index) indexFilePath out2
                 in Returned None out3)))"

section \<open>Vocabulary of the specification\<close>

text \<open>The chart declarations of a registry, maintainers in input order and the charts of
  each maintainer in input order, and their names.\<close>

definition allCharts :: "Maintainer list \<Rightarrow> Chart list" where
  "allCharts ms = concat (map Charts ms)"

definition declaredNames :: "Maintainer list \<Rightarrow> string list" where
  "declaredNames ms = map Name (allCharts ms)"

text \<open>The labels of a sequence that stand at a position after their first occurrence,
  in the order of the sequence.\<close>

definition repeatedLabels :: "string list \<Rightarrow> string list" where
  "repeatedLabels ls = [ls ! i. i \<leftarrow> [0..<length ls], ls ! i \<in> set (take i ls)]"

text \<open>The findings of one chart declaration, given the names declared before it: the CRD
  flag, then the repeated labels, then the ownership finding at the second declaration of a
  name.\<close>

definition chartFindings :: "string list \<Rightarrow> Chart \<Rightarrow> line list" where
  "chartFindings earlier c =
     (if HasSuffix (Name c) ''-crd'' \<and> GenerateIssue c
      then [InvalidCrdIssueFlag (Name c) True] else [])
     @ map (DuplicateLabel (Name c)) (repeatedLabels (GithubLabels c))
     @ (if count_list earlier (Name c) = 1 then [DuplicateChartOwnership (Name c)] else [])"

fun findingsFrom :: "string list \<Rightarrow> Chart list \<Rightarrow> line list" where
  "findingsFrom earlier [] = []"
| "findingsFrom earlier (c # cs) = chartFindings earlier c @ findingsFrom (earlier @ [Name c]) cs"

text \<open>Discovery order: the findings of the declarations, declaration by declaration.\<close>

definition discoveryOrder :: "Maintainer list \<Rightarrow> line list" where
  "discoveryOrder ms =
     concat (map (\<lambda>i. chartFindings (take i (declaredNames ms)) (allCharts ms ! i))
                 [0..<length (allCharts ms)])"

text \<open>The kinds of findings.\<close>

fun isCrdFlag :: "line \<Rightarrow> bool" where
  "isCrdFlag (InvalidCrdIssueFlag n g) = True"
| "isCrdFlag _ = False"

fun isDuplicateLabel :: "line \<Rightarrow> bool" where
  "isDuplicateLabel (DuplicateLabel n l) = True"
| "isDuplicateLabel _ = False"

fun isDuplicateOwnership :: "line \<Rightarrow> bool" where
  "isDuplicateOwnership (DuplicateChartOwnership n) = True"
| "isDuplicateOwnership _ = False"

fun isEmptyIndex :: "line \<Rightarrow> bool" where
  "isEmptyIndex (EmptyIndex p) = True"
| "isEmptyIndex _ = False"

fun isMissingFromMaintainers :: "line \<Rightarrow> bool" where
  "isMissingFromMaintainers (MissingFromMaintainers n p) = True"
| "isMissingFromMaintainers _ = False"

fun isMissingFromIndex :: "line \<Rightarrow> bool" where
  "isMissingFromIndex (MissingFromIndex n p) = True"
| "isMissingFromIndex _ = False"

definition isPerChart :: "line \<Rightarrow> bool" where
  "isPerChart l \<longleftrightarrow> isCrdFlag l \<or> isDuplicateLabel l \<or> isDuplicateOwnership l"

text \<open>The chart a membership finding is about.\<close>

fun membershipChart :: "line \<Rightarrow> string option" where
  "membershipChart (MissingFromMaintainers n p) = Some n"
| "membershipChart (MissingFromIndex n p) = Some n"
| "membershipChart _ = None"

text \<open>The lines of the cross-document phase, for a decoded index, the set of declared
  names and the two enumeration orders.\<close>

definition crossLines ::
  "(string \<rightharpoonup> 'v) \<Rightarrow> string set \<Rightarrow> string list \<Rightarrow> string list \<Rightarrow> string \<Rightarrow> string
     \<Rightarrow> line list" where
  "crossLines entries declared ks1 ks2 maintainersFilePath indexFilePath =
     (if dom entries = {} then [EmptyIndex indexFilePath] else [])
     @ map (\<lambda>k. MissingFromMaintainers k maintainersFilePath)
           (filter (\<lambda>k. k \<notin> declared) ks1)
     @ map (\<lambda>k. MissingFromIndex k indexFilePath)
           (filter (\<lambda>k. entries k = None) ks2)"

text \<open>The state of the loop over the charts after the declarations named \<open>earlier\<close>:
  every name seen is in \<open>maintainersCharts\<close>, every name seen twice is in
  \<open>duplicateCharts\<close>.\<close>

definition chartsInv :: "string list \<Rightarrow> vstate \<Rightarrow> bool" where
  "chartsInv earlier st \<longleftrightarrow>
     maintainersCharts st = set earlier \<and> duplicateCharts st = {n. 2 \<le> count_list earlier n}"

section \<open>Example inputs\<close>

definition chart :: "string \<Rightarrow> bool \<Rightarrow> string list \<Rightarrow> Chart" where
  "chart n g ls = \<lparr> Name = n, GenerateIssue = g, GithubLabels = ls \<rparr>"

definition team :: "string \<Rightarrow> Chart list \<Rightarrow> Maintainer" where
  "team n cs = \<lparr> MaintainerName = n,
       MaintainerContact = \<lparr> Email = n @ ''@example.io'', SlackChannel = [], URL = [] \<rparr>,
       Charts = cs \<rparr>"

definition indexOf :: "string list \<Rightarrow> unit IndexFile" where
  "indexOf ks = \<lparr> Entries = map_of (map (\<lambda>k. (k, ())) ks) \<rparr>"

section \<open>The loops\<close>

lemma HasSuffix_iff: "HasSuffix s suffix \<longleftrightarrow> (\<exists>p. s = p @ suffix)"
proof
  assume h: "HasSuffix s suffix"
  then have "s = take (length s - length suffix) s @ suffix"
    unfolding HasSuffix_def by (metis append_take_drop_id)
  then show "\<exists>p. s = p @ suffix" by blast
next
  assume "\<exists>p. s = p @ suffix"
  then show "HasSuffix s suffix" unfolding HasSuffix_def by auto
qed

lemma labelsLoop_append:
  "labelsLoop name (xs @ ys) seen out = labelsLoop name ys (seen \<union> set xs) (labelsLoop name xs seen out)"
  by (induction xs arbitrary: seen out) simp_all

lemma labelsLoop_out:
  "labelsLoop name ls seen out = out @ labelsLoop name ls seen []"
proof (induction ls arbitrary: seen out)
  case Nil
  show ?case by simp
next
  case (Cons l ls)
  show ?case
    using Cons.IH [of "insert l seen" "out @ [DuplicateLabel name l]"]
          Cons.IH [of "insert l seen" "[DuplicateLabel name l]"]
          Cons.IH [of "insert l seen" out]
    by simp
qed

lemma repeatedLabels_snoc:
  "repeatedLabels (xs @ [l]) = repeatedLabels xs @ (if l \<in> set xs then [l] else [])"
proof -
  let ?f = "\<lambda>i. if (xs @ [l]) ! i \<in> set (take i (xs @ [l])) then [(xs @ [l]) ! i] else []"
  let ?g = "\<lambda>i. if xs ! i \<in> set (take i xs) then [xs ! i] else []"
  have eq: "map ?f [0..<length xs] = map ?g [0..<length xs]"
    by (rule map_cong) (simp_all add: nth_append)
  have last: "?f (length xs) = (if l \<in> set xs then [l] else [])"
    by simp
  have "repeatedLabels (xs @ [l]) = concat (map ?f [0..<length xs]) @ ?f (length xs)"
    unfolding repeatedLabels_def by (simp del: take_append)
  also have "\<dots> = concat (map ?g [0..<length xs]) @ (if l \<in> set xs then [l] else [])"
    by (simp only: eq last)
  finally show ?thesis
    unfolding repeatedLabels_def .
qed

lemma labelsLoop_repeated:
  "labelsLoop name ls {} [] = map (DuplicateLabel name) (repeatedLabels ls)"
proof (induction ls rule: rev_induct)
  case Nil
  show ?case by (simp add: repeatedLabels_def)
next
  case (snoc l xs)
  show ?case
    by (simp add: labelsLoop_append snoc.IH repeatedLabels_snoc)
qed

lemma labelsLoop_eq:
  "labelsLoop name ls {} out = out @ map (DuplicateLabel name) (repeatedLabels ls)"
  using labelsLoop_out [of name ls "{}" out] by (simp add: labelsLoop_repeated)

lemma count_list_pos_iff: "0 < count_list xs x \<longleftrightarrow> x \<in> set xs"
  by (induction xs) auto

lemma chartBody_printed:
  assumes "chartsInv earlier st"
  shows "printed (chartBody c st) = printed st @ chartFindings earlier c"
proof -
  have "(Name c \<in> maintainersCharts st \<and> Name c \<notin> duplicateCharts st)
        \<longleftrightarrow> count_list earlier (Name c) = 1"
    using assms count_list_pos_iff [of earlier "Name c"] unfolding chartsInv_def by auto
  then show ?thesis
    by (auto simp add: chartBody_def Let_def chartFindings_def labelsLoop_eq)
qed

lemma chartBody_inv:
  assumes "chartsInv earlier st"
  shows "chartsInv (earlier @ [Name c]) (chartBody c st)"
proof -
  have "(Name c \<in> maintainersCharts st \<and> Name c \<notin> duplicateCharts st)
        \<longleftrightarrow> count_list earlier (Name c) = 1"
    using assms count_list_pos_iff [of earlier "Name c"] unfolding chartsInv_def by auto
  then show ?thesis
    using assms unfolding chartsInv_def
    by (auto simp add: chartBody_def Let_def)
qed

lemma chartsLoop_printed:
  "chartsInv earlier st \<Longrightarrow>
     printed (chartsLoop cs st) = printed st @ findingsFrom earlier cs"
proof (induction cs arbitrary: earlier st)
  case Nil
  show ?case by simp
next
  case (Cons c cs)
  show ?case
    using Cons.IH [OF chartBody_inv [OF Cons.prems, of c]]
    by (simp add: chartBody_printed [OF Cons.prems])
qed

lemma chartsLoop_inv:
  "chartsInv earlier st \<Longrightarrow> chartsInv (earlier @ map Name cs) (chartsLoop cs st)"
proof (induction cs arbitrary: earlier st)
  case Nil
  then show ?case by simp
next
  case (Cons c cs)
  show ?case
    using Cons.IH [OF chartBody_inv [OF Cons.prems, of c]] by simp
qed

lemma chartsLoop_append:
  "chartsLoop (xs @ ys) st = chartsLoop ys (chartsLoop xs st)"
  by (induction xs arbitrary: st) simp_all

lemma maintainersLoop_records:
  "maintainersLoop (map Some ms) st = Inr (chartsLoop (allCharts ms) st)"
  by (induction ms arbitrary: st) (simp_all add: allCharts_def chartsLoop_append)

lemma indexLoop_eq:
  "indexLoop ks mc mp out
     = out @ map (\<lambda>k. MissingFromMaintainers k mp) (filter (\<lambda>k. k \<notin> mc) ks)"
  by (induction ks arbitrary: out) simp_all

lemma chartsInIndexLoop_eq:
  "distinct ks \<Longrightarrow> \<forall>k \<in> set ks. entries k = entries0 k \<Longrightarrow>
     chartsInIndexLoop ks entries ip out
       = out @ map (\<lambda>k. MissingFromIndex k ip) (filter (\<lambda>k. entries0 k = None) ks)"
proof (induction ks arbitrary: entries out)
  case Nil
  show ?case by simp
next
  case (Cons k ks)
  have a: "\<forall>k' \<in> set ks. (entries(k := None)) k' = entries0 k'"
    using Cons.prems by auto
  have d: "distinct ks" using Cons.prems by simp
  have IH: "chartsInIndexLoop ks (entries(k := None)) ip out'
              = out' @ map (\<lambda>k. MissingFromIndex k ip) (filter (\<lambda>k. entries0 k = None) ks)"
    for out'
    using Cons.IH [OF d a] .
  have e: "entries k = entries0 k" using Cons.prems(2) by simp
  show ?case
    by (simp add: IH e del: fun_upd_apply)
qed

lemma chartsInv_init:
  "chartsInv [] \<lparr> maintainersCharts = {}, duplicateCharts = {}, printed = out \<rparr>"
  by (simp add: chartsInv_def)

lemma phase1_printed:
  "printed (chartsLoop (allCharts ms) \<lparr> maintainersCharts = {}, duplicateCharts = {}, printed = out \<rparr>)
     = out @ findingsFrom [] (allCharts ms)"
  using chartsLoop_printed [OF chartsInv_init] by simp

lemma phase1_maintainersCharts:
  "maintainersCharts (chartsLoop (allCharts ms)
       \<lparr> maintainersCharts = {}, duplicateCharts = {}, printed = out \<rparr>)
     = set (declaredNames ms)"
  using chartsLoop_inv [OF chartsInv_init [of out], of "allCharts ms"]
  by (simp add: chartsInv_def declaredNames_def)

lemma findingsFrom_index:
  "findingsFrom earlier cs
     = concat (map (\<lambda>i. chartFindings (earlier @ take i (map Name cs)) (cs ! i)) [0..<length cs])"
proof (induction cs arbitrary: earlier)
  case Nil
  show ?case by simp
next
  case (Cons c cs)
  have "[0..<length (c # cs)] = 0 # map Suc [0..<length cs]"
    by (simp add: upt_conv_Cons map_Suc_upt del: upt_Suc)
  then show ?case
    by (simp add: Cons.IH comp_def del: upt_Suc)
qed

lemma findingsFrom_discovery: "findingsFrom [] (allCharts ms) = discoveryOrder ms"
  by (simp add: findingsFrom_index discoveryOrder_def declaredNames_def)

lemma validate_records:
  assumes "distinct ks2"
  shows "validateMaintainersFile (Inr (map Some ms)) (Inr index) ks1 ks2 mp ip
     = Returned None (discoveryOrder ms
         @ crossLines (Entries index) (set (declaredNames ms)) ks1 ks2 mp ip)"
proof -
  have "chartsInIndexLoop ks2 (Entries index) ip out
          = out @ map (\<lambda>k. MissingFromIndex k ip) (filter (\<lambda>k. Entries index k = None) ks2)"
    for out
    by (rule chartsInIndexLoop_eq [OF assms]) simp
  then show ?thesis
    by (simp add: validateMaintainersFile_def maintainersLoop_records phase1_printed phase1_maintainersCharts
          findingsFrom_discovery indexLoop_eq crossLines_def Let_def)
qed

lemma validate_undecoded_maintainers:
  assumes "distinct ks2"
  shows "validateMaintainersFile (Inl err) (Inr index) ks1 ks2 mp ip
     = Returned None (DecodeError err # crossLines (Entries index) {} ks1 ks2 mp ip)"
proof -
  have "chartsInIndexLoop ks2 (Entries index) ip out
          = out @ map (\<lambda>k. MissingFromIndex k ip) (filter (\<lambda>k. Entries index k = None) ks2)"
    for out
    by (rule chartsInIndexLoop_eq [OF assms]) simp
  then show ?thesis
    by (simp add: validateMaintainersFile_def indexLoop_eq crossLines_def Let_def)
qed

lemma validate_undecoded_index:
  "validateMaintainersFile (Inr (map Some ms)) (Inl err) ks1 ks2 mp ip
     = Panicked (discoveryOrder ms @ [DecodeError err])"
  by (simp add: validateMaintainersFile_def maintainersLoop_records phase1_printed phase1_maintainersCharts
        findingsFrom_discovery)

lemma chartsInIndexLoop_kinds:
  "\<exists>names. chartsInIndexLoop ks entries ip out = out @ map (\<lambda>k. MissingFromIndex k ip) names"
proof (induction ks arbitrary: entries out)
  case Nil
  show ?case by simp
next
  case (Cons k ks)
  obtain n1 where n1: "chartsInIndexLoop ks (entries(k := None)) ip (out @ [MissingFromIndex k ip])
      = (out @ [MissingFromIndex k ip]) @ map (\<lambda>k. MissingFromIndex k ip) n1"
    using Cons.IH by blast
  obtain n2 where n2: "chartsInIndexLoop ks (entries(k := None)) ip out
      = out @ map (\<lambda>k. MissingFromIndex k ip) n2"
    using Cons.IH by blast
  show ?case
  proof (cases "entries k = None")
    case True
    have "chartsInIndexLoop (k # ks) entries ip out = out @ map (\<lambda>k. MissingFromIndex k ip) (k # n1)"
      using True n1 by simp
    then show ?thesis by blast
  next
    case False
    have "chartsInIndexLoop (k # ks) entries ip out = out @ map (\<lambda>k. MissingFromIndex k ip) n2"
      using False n2 by auto
    then show ?thesis by blast
  qed
qed

subsection \<open>Kinds of lines\<close>

lemma chartFindings_perChart: "filter isPerChart (chartFindings earlier c) = chartFindings earlier c"
  by (simp add: chartFindings_def isPerChart_def filter_map comp_def)

lemma findingsFrom_perChart: "filter isPerChart (findingsFrom earlier cs) = findingsFrom earlier cs"
  by (induction cs arbitrary: earlier) (simp_all add: chartFindings_perChart)

lemma discoveryOrder_perChart: "filter isPerChart (discoveryOrder ms) = discoveryOrder ms"
  using findingsFrom_perChart [of "[]" "allCharts ms"] by (simp add: findingsFrom_discovery)

lemma validate_decoded_any_order:
  "\<exists>names. validateMaintainersFile (Inr (map Some ms)) (Inr index) ks1 ks2 mp ip
     = Returned None (discoveryOrder ms
         @ (if dom (Entries index) = {} then [EmptyIndex ip] else [])
         @ map (\<lambda>k. MissingFromMaintainers k mp)
               (filter (\<lambda>k. k \<notin> set (declaredNames ms)) ks1)
         @ map (\<lambda>k. MissingFromIndex k ip) names)"
proof -
  define mid where "mid = (if dom (Entries index) = {} then [EmptyIndex ip] else [])
        @ map (\<lambda>k. MissingFromMaintainers k mp) (filter (\<lambda>k. k \<notin> set (declaredNames ms)) ks1)"
  obtain names where n: "chartsInIndexLoop ks2 (Entries index) ip (discoveryOrder ms @ mid)
       = (discoveryOrder ms @ mid) @ map (\<lambda>k. MissingFromIndex k ip) names"
    using chartsInIndexLoop_kinds by blast
  have "validateMaintainersFile (Inr (map Some ms)) (Inr index) ks1 ks2 mp ip
          = Returned None (chartsInIndexLoop ks2 (Entries index) ip (discoveryOrder ms @ mid))"
    by (simp add: validateMaintainersFile_def maintainersLoop_records phase1_printed
          phase1_maintainersCharts findingsFrom_discovery indexLoop_eq Let_def mid_def)
  then have "validateMaintainersFile (Inr (map Some ms)) (Inr index) ks1 ks2 mp ip
          = Returned None (discoveryOrder ms @ mid @ map (\<lambda>k. MissingFromIndex k ip) names)"
    using n by simp
  then show ?thesis
    unfolding mid_def by auto
qed

lemma validate_printed:
  "\<exists>tail. printedOf (validateMaintainersFile (Inr (map Some ms)) di ks1 ks2 mp ip)
            = discoveryOrder ms @ tail \<and> filter isPerChart tail = []"
proof (cases di)
  case (Inl err)
  have "filter isPerChart [DecodeError err] = []" by (simp add: isPerChart_def)
  moreover have "printedOf (validateMaintainersFile (Inr (map Some ms)) di ks1 ks2 mp ip)
          = discoveryOrder ms @ [DecodeError err]"
    using Inl by (simp add: validate_undecoded_index)
  ultimately show ?thesis by blast
next
  case (Inr index)
  obtain names where n: "validateMaintainersFile (Inr (map Some ms)) (Inr index) ks1 ks2 mp ip
     = Returned None (discoveryOrder ms
         @ (if dom (Entries index) = {} then [EmptyIndex ip] else [])
         @ map (\<lambda>k. MissingFromMaintainers k mp)
               (filter (\<lambda>k. k \<notin> set (declaredNames ms)) ks1)
         @ map (\<lambda>k. MissingFromIndex k ip) names)"
    using validate_decoded_any_order by blast
  have "filter isPerChart ((if dom (Entries index) = {} then [EmptyIndex ip] else [])
         @ map (\<lambda>k. MissingFromMaintainers k mp)
               (filter (\<lambda>k. k \<notin> set (declaredNames ms)) ks1)
         @ map (\<lambda>k. MissingFromIndex k ip) names) = []"
    by (simp add: isPerChart_def filter_map comp_def)
  moreover have "printedOf (validateMaintainersFile (Inr (map Some ms)) di ks1 ks2 mp ip)
     = discoveryOrder ms
         @ ((if dom (Entries index) = {} then [EmptyIndex ip] else [])
         @ map (\<lambda>k. MissingFromMaintainers k mp)
               (filter (\<lambda>k. k \<notin> set (declaredNames ms)) ks1)
         @ map (\<lambda>k. MissingFromIndex k ip) names)"
    using n Inr by simp
  ultimately show ?thesis by blast
qed

lemma no_perChart_kinds:
  assumes "filter isPerChart xs = []"
  shows "filter isCrdFlag xs = []" and "filter isDuplicateLabel xs = []"
    and "count_list xs (DuplicateChartOwnership n) = 0"
proof -
  have a: "\<forall>l \<in> set xs. \<not> isPerChart l"
    using assms by (simp add: filter_empty_conv)
  show "filter isCrdFlag xs = []"
    using a by (auto simp add: filter_empty_conv isPerChart_def)
  show "filter isDuplicateLabel xs = []"
    using a by (auto simp add: filter_empty_conv isPerChart_def)
  have "DuplicateChartOwnership n \<notin> set xs"
    using a by (auto simp add: isPerChart_def)
  then show "count_list xs (DuplicateChartOwnership n) = 0" by simp
qed

subsection \<open>The findings of each per-chart check\<close>

lemma findingsFrom_crd:
  "filter isCrdFlag (findingsFrom earlier cs)
     = map (\<lambda>c. InvalidCrdIssueFlag (Name c) True)
           (filter (\<lambda>c. HasSuffix (Name c) ''-crd'' \<and> GenerateIssue c) cs)"
  by (induction cs arbitrary: earlier) (simp_all add: chartFindings_def filter_map comp_def)

lemma findingsFrom_labels:
  "filter isDuplicateLabel (findingsFrom earlier cs)
     = concat (map (\<lambda>c. map (DuplicateLabel (Name c)) (repeatedLabels (GithubLabels c))) cs)"
  by (induction cs arbitrary: earlier) (simp_all add: chartFindings_def filter_map comp_def)

lemma count_repeatedLabels: "count_list (repeatedLabels ls) l = count_list ls l - 1"
proof (induction ls rule: rev_induct)
  case Nil
  show ?case by (simp add: repeatedLabels_def)
next
  case (snoc x xs)
  show ?case
  proof (cases "x = l \<and> l \<in> set xs")
    case True
    then have "0 < count_list xs l" by (simp add: count_list_pos_iff)
    then show ?thesis using True snoc.IH by (simp add: repeatedLabels_snoc)
  next
    case False
    then show ?thesis using snoc.IH by (auto simp add: repeatedLabels_snoc)
  qed
qed

lemma count_chartFindings_ownership:
  "count_list (chartFindings earlier c) (DuplicateChartOwnership n)
     = (if Name c = n \<and> count_list earlier n = 1 then 1 else 0)"
proof -
  have "DuplicateChartOwnership n \<notin> set (map (DuplicateLabel (Name c)) (repeatedLabels (GithubLabels c)))"
    by auto
  then have "count_list (map (DuplicateLabel (Name c)) (repeatedLabels (GithubLabels c)))
               (DuplicateChartOwnership n) = 0"
    by (rule count_notin)
  then show ?thesis
    by (simp add: chartFindings_def)
qed

lemma count_findingsFrom_ownership:
  "count_list (findingsFrom earlier cs) (DuplicateChartOwnership n)
     = (if count_list earlier n \<le> 1 \<and> 2 \<le> count_list (earlier @ map Name cs) n then 1 else 0)"
proof (induction cs arbitrary: earlier)
  case Nil
  show ?case by simp
next
  case (Cons c cs)
  show ?case
    by (simp add: count_chartFindings_ownership Cons.IH)
qed

lemma perChart_only:
  assumes "filter isPerChart xs = xs"
  shows "filter isEmptyIndex xs = []"
    and "filter isMissingFromMaintainers xs = []"
    and "filter isMissingFromIndex xs = []"
    and "filter (\<lambda>l. membershipChart l = Some c) xs = []"
proof -
  have a: "\<forall>l \<in> set xs. isPerChart l"
    using assms by (simp add: filter_id_conv)
  have b: "isPerChart l \<Longrightarrow> \<not> isEmptyIndex l \<and> \<not> isMissingFromMaintainers l
             \<and> \<not> isMissingFromIndex l \<and> membershipChart l \<noteq> Some c" for l
    by (cases l) (simp_all add: isPerChart_def)
  show "filter isEmptyIndex xs = []" using a b by (simp add: filter_empty_conv)
  show "filter isMissingFromMaintainers xs = []" using a b by (simp add: filter_empty_conv)
  show "filter isMissingFromIndex xs = []" using a b by (simp add: filter_empty_conv)
  show "filter (\<lambda>l. membershipChart l = Some c) xs = []" using a b by (simp add: filter_empty_conv)
qed

lemma filter_eq_distinct:
  "distinct xs \<Longrightarrow> filter (\<lambda>k. k = c) xs = (if c \<in> set xs then [c] else [])"
  by (induction xs) auto

lemma crossLines_membership:
  assumes "distinct ks1" and "distinct ks2"
  shows "filter (\<lambda>l. membershipChart l = Some c) (crossLines entries declared ks1 ks2 mp ip)
     = (if c \<in> set ks1 \<and> c \<notin> declared then [MissingFromMaintainers c mp] else [])
       @ (if c \<in> set ks2 \<and> entries c = None then [MissingFromIndex c ip] else [])"
proof -
  have a: "filter (\<lambda>k. k = c) (filter (\<lambda>k. k \<notin> declared) ks1)
             = (if c \<in> set ks1 \<and> c \<notin> declared then [c] else [])"
    using filter_eq_distinct [of "filter (\<lambda>k. k \<notin> declared) ks1" c] assms(1) by simp
  have b: "filter (\<lambda>k. k = c) (filter (\<lambda>k. entries k = None) ks2)
             = (if c \<in> set ks2 \<and> entries c = None then [c] else [])"
    using filter_eq_distinct [of "filter (\<lambda>k. entries k = None) ks2" c] assms(2) by simp
  have "filter (\<lambda>l. membershipChart l = Some c) (crossLines entries declared ks1 ks2 mp ip)
     = map (\<lambda>k. MissingFromMaintainers k mp) (filter (\<lambda>k. k = c) (filter (\<lambda>k. k \<notin> declared) ks1))
       @ map (\<lambda>k. MissingFromIndex k ip) (filter (\<lambda>k. k = c) (filter (\<lambda>k. entries k = None) ks2))"
    by (simp add: crossLines_def filter_map comp_def)
  then show ?thesis
    by (simp only: a b) simp
qed

lemma repeatedLabels_distinct: "distinct ls \<Longrightarrow> repeatedLabels ls = []"
proof (induction ls rule: rev_induct)
  case Nil
  show ?case by (simp add: repeatedLabels_def)
next
  case (snoc x xs)
  then show ?case by (simp add: repeatedLabels_snoc)
qed

lemma findingsFrom_clean:
  "distinct (earlier @ map Name cs) \<Longrightarrow>
   \<forall>c \<in> set cs. distinct (GithubLabels c) \<Longrightarrow>
   \<forall>c \<in> set cs. \<not> (HasSuffix (Name c) ''-crd'' \<and> GenerateIssue c) \<Longrightarrow>
   findingsFrom earlier cs = []"
proof (induction cs arbitrary: earlier)
  case Nil
  show ?case by simp
next
  case (Cons c cs)
  have n: "Name c \<notin> set earlier" using Cons.prems(1) by auto
  have "chartFindings earlier c = []"
    using Cons.prems(2,3) n by (simp add: chartFindings_def repeatedLabels_distinct)
  moreover have "findingsFrom (earlier @ [Name c]) cs = []"
    using Cons.prems by (intro Cons.IH) auto
  ultimately show ?case by simp
qed

lemma maintainersLoop_nil_record:
  "maintainersLoop (map Some ms @ None # rest) st = Inl (printed (chartsLoop (allCharts ms) st))"
  by (induction ms arbitrary: st) (simp_all add: allCharts_def chartsLoop_append)

lemma nil_record_panics:
  "validateMaintainersFile (Inr (map Some ms @ None # rest)) di ks1 ks2 mp ip
     = Panicked (discoveryOrder ms)"
  by (simp add: validateMaintainersFile_def maintainersLoop_nil_record phase1_printed
        findingsFrom_discovery)

lemma count_labelsLoop:
  "count_list (labelsLoop name ls {} []) (DuplicateLabel name l) = count_list ls l - 1"
proof -
  have "inj (DuplicateLabel name)" by (simp add: inj_def)
  then show ?thesis
    by (simp add: labelsLoop_repeated count_list_map_conv count_repeatedLabels)
qed

lemma render_EmptyIndex:
  "render (EmptyIndex path) = ''error: index file [%s] has no chart entries '' @ path @ [CHR 0x0A]"
  by (simp add: render_def)

lemma count_list_distinct:
  "distinct xs \<Longrightarrow> count_list xs x = (if x \<in> set xs then 1 else 0)"
  by (induction xs) auto

lemma collected_charts:
  assumes "maintainersLoop (map Some ms)
             \<lparr> maintainersCharts = {}, duplicateCharts = {}, printed = out \<rparr> = Inr st"
  shows "maintainersCharts st = set (declaredNames ms)"
  using assms phase1_maintainersCharts [of ms out] by (simp add: maintainersLoop_records)

subsection \<open>Two runs of the model\<close>

text \<open>A run through every kind of finding but the empty index, and a run over a maintainer
  list with a nil record.\<close>

lemma example_run:
  "validateMaintainersFile
       (Inr [Some (team ''t1'' [chart ''a-crd'' True [''p'', ''p''], chart ''b'' False []]),
             Some (team ''t2'' [chart ''b'' False [''q'', ''r'', ''q'']])])
       (Inr (indexOf [''b'', ''z''])) [''z'', ''b''] [''b'', ''a-crd'']
       ''./maintainers.yaml'' ''./charts/index.yaml''
     = Returned None
        [InvalidCrdIssueFlag ''a-crd'' True, DuplicateLabel ''a-crd'' ''p'',
         DuplicateLabel ''b'' ''q'', DuplicateChartOwnership ''b'',
         MissingFromMaintainers ''z'' ''./maintainers.yaml'',
         MissingFromIndex ''a-crd'' ''./charts/index.yaml'']"
  by (simp add: validateMaintainersFile_def chartBody_def HasSuffix_def team_def chart_def
        indexOf_def)

lemma example_nil_record:
  "validateMaintainersFile
       (Inr [Some (team ''t1'' [chart ''a-crd'' True []]), None])
       (Inr (indexOf [''b''])) [''b''] [''a-crd'']
       ''./maintainers.yaml'' ''./charts/index.yaml''
     = Panicked [InvalidCrdIssueFlag ''a-crd'' True]"
  by (simp add: validateMaintainersFile_def chartBody_def HasSuffix_def team_def chart_def)

section \<open>The claims of the specification\<close>

text \<open>
  A maintainer list of the specification is a sequence of records: the decoded value
  \<open>Inr (map Some ms)\<close>, in which no pointer is nil. The findings of a run are the lines it
  prints, \<open>printedOf\<close>. Where a statement depends on the order in which a map is
  enumerated, it is stated for every order (\<open>rangeOrder\<close>).
\<close>

text \<open>
  Claim C1. When both documents are decoded, the membership findings about a chart name
  \<open>c\<close> are: exactly one \<open>MissingFromMaintainers\<close> finding when \<open>c\<close> is in the index and
  not declared by the maintainers; exactly one \<open>MissingFromIndex\<close> finding when \<open>c\<close> is
  declared and not in the index; none when \<open>c\<close> is in both (or in neither). This holds
  for every order in which the two maps are enumerated.
\<close>

theorem membership_findings:
  assumes "rangeOrder ks1 (dom (Entries index))"
      and "rangeOrder ks2 (set (declaredNames ms))"
  shows "filter (\<lambda>l. membershipChart l = Some c)
           (printedOf (validateMaintainersFile (Inr (map Some ms)) (Inr index) ks1 ks2 mp ip))
     = (if c \<in> dom (Entries index) \<and> c \<notin> set (declaredNames ms)
        then [MissingFromMaintainers c mp]
        else if c \<in> set (declaredNames ms) \<and> c \<notin> dom (Entries index)
        then [MissingFromIndex c ip]
        else [])"
proof -
  have d: "distinct ks1" "distinct ks2" "set ks1 = dom (Entries index)"
      "set ks2 = set (declaredNames ms)"
    using assms by (simp_all add: rangeOrder_def)
  have "filter (\<lambda>l. membershipChart l = Some c)
           (printedOf (validateMaintainersFile (Inr (map Some ms)) (Inr index) ks1 ks2 mp ip))
     = filter (\<lambda>l. membershipChart l = Some c)
           (crossLines (Entries index) (set (declaredNames ms)) ks1 ks2 mp ip)"
    by (simp add: validate_records [OF d(2)] perChart_only(4) [OF discoveryOrder_perChart])
  then show ?thesis
    by (auto simp add: crossLines_membership [OF d(1) d(2)] d(3) d(4))
qed

text \<open>The example of the specification: maintainers declaring \<open>a\<close> and \<open>b\<close>, an index
  holding \<open>b\<close> and \<open>c\<close>.\<close>

theorem membership_findings_witness:
  "rangeOrder [''c'', ''b''] (dom (Entries (indexOf [''b'', ''c''])))
   \<and> rangeOrder [''a'', ''b'']
        (set (declaredNames [team ''t1'' [chart ''a'' False []], team ''t2'' [chart ''b'' False []]]))
   \<and> filter (\<lambda>l. membershipChart l = Some ''c'')
        (printedOf (validateMaintainersFile
           (Inr (map Some [team ''t1'' [chart ''a'' False []], team ''t2'' [chart ''b'' False []]]))
           (Inr (indexOf [''b'', ''c''])) [''c'', ''b''] [''a'', ''b'']
           ''./maintainers.yaml'' ''./charts/index.yaml''))
       = [MissingFromMaintainers ''c'' ''./maintainers.yaml'']
   \<and> filter (\<lambda>l. membershipChart l = Some ''a'')
        (printedOf (validateMaintainersFile
           (Inr (map Some [team ''t1'' [chart ''a'' False []], team ''t2'' [chart ''b'' False []]]))
           (Inr (indexOf [''b'', ''c''])) [''c'', ''b''] [''a'', ''b'']
           ''./maintainers.yaml'' ''./charts/index.yaml''))
       = [MissingFromIndex ''a'' ''./charts/index.yaml'']
   \<and> filter (\<lambda>l. membershipChart l = Some ''b'')
        (printedOf (validateMaintainersFile
           (Inr (map Some [team ''t1'' [chart ''a'' False []], team ''t2'' [chart ''b'' False []]]))
           (Inr (indexOf [''b'', ''c''])) [''c'', ''b''] [''a'', ''b'']
           ''./maintainers.yaml'' ''./charts/index.yaml''))
       = []"
proof -
  let ?ms = "[team ''t1'' [chart ''a'' False []], team ''t2'' [chart ''b'' False []]]"
  have n: "declaredNames ?ms = [''a'', ''b'']"
    by (simp add: declaredNames_def allCharts_def team_def chart_def)
  have e: "dom (Entries (indexOf [''b'', ''c''])) = {''b'', ''c''}"
    by (auto simp add: indexOf_def)
  have h1: "rangeOrder [''c'', ''b''] (dom (Entries (indexOf [''b'', ''c''])))"
    unfolding e by (auto simp add: rangeOrder_def)
  have h2: "rangeOrder [''a'', ''b''] (set (declaredNames ?ms))"
    unfolding n by (simp add: rangeOrder_def)
  show ?thesis
    using h1 h2
      membership_findings [OF h1 h2, of "''c''" "''./maintainers.yaml''" "''./charts/index.yaml''"]
      membership_findings [OF h1 h2, of "''a''" "''./maintainers.yaml''" "''./charts/index.yaml''"]
      membership_findings [OF h1 h2, of "''b''" "''./maintainers.yaml''" "''./charts/index.yaml''"]
    by (simp add: n e)
qed

text \<open>
  Claim C2. A chart name that occurs in two or more chart declarations of the whole
  maintainer list, in one record or across records, gets exactly one
  \<open>DuplicateChartOwnership\<close> finding, however often it recurs; a name declared at most once
  gets none.
\<close>

theorem duplicate_ownership_once:
  "count_list (printedOf (validateMaintainersFile (Inr (map Some ms)) di ks1 ks2 mp ip))
       (DuplicateChartOwnership n)
     = (if 2 \<le> count_list (declaredNames ms) n then 1 else 0)"
proof -
  obtain tail where t: "printedOf (validateMaintainersFile (Inr (map Some ms)) di ks1 ks2 mp ip)
            = discoveryOrder ms @ tail" "filter isPerChart tail = []"
    using validate_printed by blast
  have "count_list (discoveryOrder ms @ tail) (DuplicateChartOwnership n)
          = count_list (findingsFrom [] (allCharts ms)) (DuplicateChartOwnership n)"
    using no_perChart_kinds(3) [OF t(2)] by (simp add: findingsFrom_discovery)
  then show ?thesis
    by (simp add: t(1) count_findingsFrom_ownership declaredNames_def)
qed

theorem duplicate_ownership_once_witness:
  "count_list (printedOf (validateMaintainersFile
       (Inr (map Some [team ''t1'' [chart ''foo'' False [], chart ''bar'' False []],
                       team ''t2'' [chart ''foo'' False [], chart ''foo'' False []]]))
       (Inr (indexOf [''foo'', ''bar''])) [''foo'', ''bar''] [''bar'', ''foo'']
       ''./maintainers.yaml'' ''./charts/index.yaml''))
     (DuplicateChartOwnership ''foo'') = 1
   \<and> count_list (printedOf (validateMaintainersFile
       (Inr (map Some [team ''t1'' [chart ''foo'' False [], chart ''bar'' False []],
                       team ''t2'' [chart ''foo'' False [], chart ''foo'' False []]]))
       (Inr (indexOf [''foo'', ''bar''])) [''foo'', ''bar''] [''bar'', ''foo'']
       ''./maintainers.yaml'' ''./charts/index.yaml''))
     (DuplicateChartOwnership ''bar'') = 0"
proof -
  let ?ms = "[team ''t1'' [chart ''foo'' False [], chart ''bar'' False []],
              team ''t2'' [chart ''foo'' False [], chart ''foo'' False []]]"
  have n: "declaredNames ?ms = [''foo'', ''bar'', ''foo'', ''foo'']"
    by (simp add: declaredNames_def allCharts_def team_def chart_def)
  show ?thesis
    using duplicate_ownership_once [of ?ms "Inr (indexOf [''foo'', ''bar''])"
            "[''foo'', ''bar'']" "[''bar'', ''foo'']" "''./maintainers.yaml''"
            "''./charts/index.yaml''" "''foo''"]
          duplicate_ownership_once [of ?ms "Inr (indexOf [''foo'', ''bar''])"
            "[''foo'', ''bar'']" "[''bar'', ''foo'']" "''./maintainers.yaml''"
            "''./charts/index.yaml''" "''bar''"]
    by (simp add: n)
qed

text \<open>
  Claim C3. The \<open>DuplicateLabel\<close> findings of a run are, declaration by declaration, one
  finding for each label that stands at a position after its first occurrence in the label
  sequence of that declaration, and none for a first occurrence; so a label occurring
  \<open>k\<close> times in a declaration is reported \<open>k - 1\<close> times for it.
\<close>

theorem duplicate_label_findings:
  "filter isDuplicateLabel
       (printedOf (validateMaintainersFile (Inr (map Some ms)) di ks1 ks2 mp ip))
     = concat (map (\<lambda>c. map (DuplicateLabel (Name c)) (repeatedLabels (GithubLabels c)))
                   (allCharts ms))
   \<and> count_list (labelsLoop name ls {} []) (DuplicateLabel name l) = count_list ls l - 1"
proof -
  obtain tail where t: "printedOf (validateMaintainersFile (Inr (map Some ms)) di ks1 ks2 mp ip)
            = discoveryOrder ms @ tail" "filter isPerChart tail = []"
    using validate_printed by blast
  have "filter isDuplicateLabel (discoveryOrder ms @ tail)
          = filter isDuplicateLabel (findingsFrom [] (allCharts ms))"
    using no_perChart_kinds(2) [OF t(2)] by (simp add: findingsFrom_discovery)
  then show ?thesis
    by (simp add: t(1) findingsFrom_labels count_labelsLoop)
qed

text \<open>The example of the specification: labels \<open>[a, b, a, a]\<close>.\<close>

theorem duplicate_label_findings_witness:
  "filter isDuplicateLabel (printedOf (validateMaintainersFile
       (Inr (map Some [team ''t1'' [chart ''x'' False [''a'', ''b'', ''a'', ''a'']]]))
       (Inr (indexOf [''x''])) [''x''] [''x''] ''./maintainers.yaml'' ''./charts/index.yaml''))
     = [DuplicateLabel ''x'' ''a'', DuplicateLabel ''x'' ''a'']
   \<and> count_list (labelsLoop ''x'' [''a'', ''b'', ''a'', ''a''] {} []) (DuplicateLabel ''x'' ''a'') = 2
   \<and> count_list (labelsLoop ''x'' [''a'', ''b'', ''a'', ''a''] {} []) (DuplicateLabel ''x'' ''b'') = 0"
proof -
  have r: "repeatedLabels [''a'', ''b'', ''a'', ''a''] = [''a'', ''a'']"
    by (simp add: repeatedLabels_def upt_rec)
  show ?thesis
    using duplicate_label_findings [of "[team ''t1'' [chart ''x'' False [''a'', ''b'', ''a'', ''a'']]]"
            "Inr (indexOf [''x''])" "[''x'']" "[''x'']" "''./maintainers.yaml''"
            "''./charts/index.yaml''" "''x''" "[''a'', ''b'', ''a'', ''a'']" "''a''"]
          duplicate_label_findings [of "[team ''t1'' [chart ''x'' False [''a'', ''b'', ''a'', ''a'']]]"
            "Inr (indexOf [''x''])" "[''x'']" "[''x'']" "''./maintainers.yaml''"
            "''./charts/index.yaml''" "''x''" "[''a'', ''b'', ''a'', ''a'']" "''b''"]
    by (simp add: r allCharts_def team_def chart_def)
qed

text \<open>
  Claim C4. The \<open>InvalidCrdIssueFlag\<close> findings of a run are exactly one per chart
  declaration whose name ends in \<open>-crd\<close> and whose \<open>generateIssue\<close> is true, in input order;
  a declaration without the suffix or with \<open>generateIssue\<close> false gets none, whatever
  other charts there are.
\<close>

theorem crd_flag_findings:
  "filter isCrdFlag (printedOf (validateMaintainersFile (Inr (map Some ms)) di ks1 ks2 mp ip))
     = map (\<lambda>c. InvalidCrdIssueFlag (Name c) True)
           (filter (\<lambda>c. HasSuffix (Name c) ''-crd'' \<and> GenerateIssue c) (allCharts ms))"
proof -
  obtain tail where t: "printedOf (validateMaintainersFile (Inr (map Some ms)) di ks1 ks2 mp ip)
            = discoveryOrder ms @ tail" "filter isPerChart tail = []"
    using validate_printed by blast
  have "filter isCrdFlag (discoveryOrder ms @ tail) = filter isCrdFlag (findingsFrom [] (allCharts ms))"
    using no_perChart_kinds(1) [OF t(2)] by (simp add: findingsFrom_discovery)
  then show ?thesis
    by (simp add: t(1) findingsFrom_crd)
qed

theorem crd_flag_findings_witness:
  "filter isCrdFlag (printedOf (validateMaintainersFile
       (Inr (map Some [team ''t1'' [chart ''fleet-crd'' True [], chart ''fleet'' True [],
                                   chart ''gke-crd'' False []]]))
       (Inr (indexOf [''fleet''])) [''fleet''] [''fleet'', ''fleet-crd'', ''gke-crd'']
       ''./maintainers.yaml'' ''./charts/index.yaml''))
     = [InvalidCrdIssueFlag ''fleet-crd'' True]"
  using crd_flag_findings [of "[team ''t1'' [chart ''fleet-crd'' True [], chart ''fleet'' True [],
                                   chart ''gke-crd'' False []]]"
          "Inr (indexOf [''fleet''])" "[''fleet'']" "[''fleet'', ''fleet-crd'', ''gke-crd'']"
          "''./maintainers.yaml''" "''./charts/index.yaml''"]
  by (simp add: allCharts_def team_def chart_def HasSuffix_def)

text \<open>
  Claim C5. When the index is decoded, the run prints exactly one \<open>EmptyIndex\<close> finding,
  carrying the path of the index file, if the index has no entries, and no \<open>EmptyIndex\<close>
  finding if it has one or more; this does not depend on the maintainer list.
\<close>

theorem empty_index_finding:
  "filter isEmptyIndex
       (printedOf (validateMaintainersFile (Inr (map Some ms)) (Inr index) ks1 ks2 mp ip))
     = (if dom (Entries index) = {} then [EmptyIndex ip] else [])"
proof -
  obtain names where n: "validateMaintainersFile (Inr (map Some ms)) (Inr index) ks1 ks2 mp ip
     = Returned None (discoveryOrder ms
         @ (if dom (Entries index) = {} then [EmptyIndex ip] else [])
         @ map (\<lambda>k. MissingFromMaintainers k mp)
               (filter (\<lambda>k. k \<notin> set (declaredNames ms)) ks1)
         @ map (\<lambda>k. MissingFromIndex k ip) names)"
    using validate_decoded_any_order by blast
  show ?thesis
    by (simp add: n perChart_only(1) [OF discoveryOrder_perChart] filter_map comp_def)
qed

theorem empty_index_finding_witness:
  "filter isEmptyIndex (printedOf (validateMaintainersFile
       (Inr (map Some [team ''t1'' [chart ''a'' False []]]))
       (Inr (indexOf [])) [] [''a''] ''./maintainers.yaml'' ''./charts/index.yaml''))
     = [EmptyIndex ''./charts/index.yaml'']
   \<and> filter isEmptyIndex (printedOf (validateMaintainersFile
       (Inr (map Some [team ''t1'' [chart ''a'' False []]]))
       (Inr (indexOf [''a''])) [''a''] [''a''] ''./maintainers.yaml'' ''./charts/index.yaml''))
     = []"
  using empty_index_finding [of "[team ''t1'' [chart ''a'' False []]]" "indexOf []" "[]" "[''a'']"
          "''./maintainers.yaml''" "''./charts/index.yaml''"]
        empty_index_finding [of "[team ''t1'' [chart ''a'' False []]]" "indexOf [''a'']" "[''a'']"
          "[''a'']" "''./maintainers.yaml''" "''./charts/index.yaml''"]
  by (simp add: indexOf_def)

text \<open>
  Claim C6 as the specification words it does not hold. Here the maintainers file cannot be
  opened: the run prints the error, reports the chart of the index as missing from the
  maintainers file, and returns nil.
\<close>

theorem decode_failure_returns_nil_counterexample:
  "validateMaintainersFile (Inl ''open ./maintainers.yaml: no such file or directory'')
       (Inr (indexOf [''c''])) [''c''] [] ''./maintainers.yaml'' ''./charts/index.yaml''
     = Returned None [DecodeError ''open ./maintainers.yaml: no such file or directory'',
                      MissingFromMaintainers ''c'' ''./maintainers.yaml'']"
  by (simp add: validateMaintainersFile_def indexOf_def)

text \<open>
  Claim C6, as amended. The run raises nothing for problems in the data and never returns a
  non-nil error, whatever was decoded. When the index is decoded: with the maintainers
  decoded too (to a sequence of records) it returns nil after printing every finding; and
  when the maintainers file cannot be decoded it does not stop, it prints the decode error,
  goes on with an empty maintainer list, still runs the empty-index and membership checks
  against the index, and returns nil. (What happens when the index is not decoded is the
  subject of claim C9.)
\<close>

theorem decode_failure_not_propagated:
  assumes "rangeOrder ks1 (dom (Entries (index :: 'v IndexFile)))"
      and "rangeOrder ks2 (set (declaredNames ms))"
  shows "validateMaintainersFile md (di :: string + 'v IndexFile) k1 k2 mp ip
           \<noteq> Returned (Some e) out
       \<and> validateMaintainersFile (Inr (map Some ms)) (Inr index) ks1 ks2 mp ip
           = Returned None (discoveryOrder ms
               @ crossLines (Entries index) (set (declaredNames ms)) ks1 ks2 mp ip)
       \<and> validateMaintainersFile (Inl err) (Inr index) ks1 [] mp ip
           = Returned None (DecodeError err
               # (if dom (Entries index) = {} then [EmptyIndex ip] else [])
               @ map (\<lambda>k. MissingFromMaintainers k mp) ks1)"
proof -
  have d: "distinct ks2" using assms(2) by (simp add: rangeOrder_def)
  have a: "validateMaintainersFile md di k1 k2 mp ip \<noteq> Returned (Some e) out"
    for di :: "string + 'v IndexFile"
    by (simp add: validateMaintainersFile_def Let_def split: sum.splits prod.splits)
  have b: "validateMaintainersFile (Inl err) (Inr index) ks1 [] mp ip
           = Returned None (DecodeError err
               # (if dom (Entries index) = {} then [EmptyIndex ip] else [])
               @ map (\<lambda>k. MissingFromMaintainers k mp) ks1)"
    by (simp add: validate_undecoded_maintainers crossLines_def)
  show ?thesis
    using a b validate_records [OF d] by blast
qed

text \<open>A registry with findings of its own, and the same index with the maintainers file
  unreadable.\<close>

theorem decode_failure_not_propagated_witness:
  "rangeOrder [''c'', ''a''] (dom (Entries (indexOf [''a'', ''c''])))
   \<and> rangeOrder [''a'', ''b-crd'']
        (set (declaredNames [team ''t1'' [chart ''a'' False [''x'', ''x'']],
                             team ''t2'' [chart ''b-crd'' True []]]))
   \<and> validateMaintainersFile (Inl ''open ./maintainers.yaml: permission denied'')
        (Inl ''open ./charts/index.yaml: permission denied'' :: string + unit IndexFile)
        [] [] ''./maintainers.yaml'' ''./charts/index.yaml''
       \<noteq> Returned (Some ''open ./maintainers.yaml: permission denied'') []
   \<and> validateMaintainersFile
        (Inr (map Some [team ''t1'' [chart ''a'' False [''x'', ''x'']],
                        team ''t2'' [chart ''b-crd'' True []]]))
        (Inr (indexOf [''a'', ''c''])) [''c'', ''a''] [''a'', ''b-crd'']
        ''./maintainers.yaml'' ''./charts/index.yaml''
       = Returned None [DuplicateLabel ''a'' ''x'', InvalidCrdIssueFlag ''b-crd'' True,
                        MissingFromMaintainers ''c'' ''./maintainers.yaml'',
                        MissingFromIndex ''b-crd'' ''./charts/index.yaml'']
   \<and> validateMaintainersFile
        (Inl ''yaml: line 3: mapping values are not allowed in this context'')
        (Inr (indexOf [''a'', ''c''])) [''c'', ''a''] []
        ''./maintainers.yaml'' ''./charts/index.yaml''
       = Returned None [DecodeError ''yaml: line 3: mapping values are not allowed in this context'',
                        MissingFromMaintainers ''c'' ''./maintainers.yaml'',
                        MissingFromMaintainers ''a'' ''./maintainers.yaml'']"
proof -
  let ?ms = "[team ''t1'' [chart ''a'' False [''x'', ''x'']], team ''t2'' [chart ''b-crd'' True []]]"
  have n: "declaredNames ?ms = [''a'', ''b-crd'']"
    by (simp add: declaredNames_def allCharts_def team_def chart_def)
  have e: "dom (Entries (indexOf [''a'', ''c''])) = {''a'', ''c''}"
    by (auto simp add: indexOf_def)
  have h1: "rangeOrder [''c'', ''a''] (dom (Entries (indexOf [''a'', ''c''])))"
    unfolding e by (auto simp add: rangeOrder_def)
  have h2: "rangeOrder [''a'', ''b-crd''] (set (declaredNames ?ms))"
    unfolding n by (simp add: rangeOrder_def)
  have d: "discoveryOrder ?ms
             = [DuplicateLabel ''a'' ''x'', InvalidCrdIssueFlag ''b-crd'' True]"
    by (simp add: discoveryOrder_def declaredNames_def allCharts_def team_def chart_def
          chartFindings_def repeatedLabels_def HasSuffix_def upt_rec)
  have c: "crossLines (Entries (indexOf [''a'', ''c''])) (set (declaredNames ?ms))
             [''c'', ''a''] [''a'', ''b-crd''] ''./maintainers.yaml'' ''./charts/index.yaml''
           = [MissingFromMaintainers ''c'' ''./maintainers.yaml'',
              MissingFromIndex ''b-crd'' ''./charts/index.yaml'']"
    unfolding n by (simp add: crossLines_def indexOf_def)
  show ?thesis
    using h1 h2
      decode_failure_not_propagated [OF h1 h2,
         of "Inl ''open ./maintainers.yaml: permission denied''"
            "Inl ''open ./charts/index.yaml: permission denied''" "[]" "[]"
            "''./maintainers.yaml''" "''./charts/index.yaml''"
            "''open ./maintainers.yaml: permission denied''" "[]"
            "''yaml: line 3: mapping values are not allowed in this context''"]
    by (simp only: d c e) simp
qed

text \<open>
  Claim C7. A registry with no chart name declared twice, no chart with a repeated label and
  no chart named \<open>...-crd\<close> with \<open>generateIssue\<close> true, whose set of declared names is the
  non-empty set of names of the index, makes the run return with no finding at all.
\<close>

theorem consistent_registry_no_findings:
  assumes "distinct (declaredNames ms)"
      and "\<forall>c \<in> set (allCharts ms). distinct (GithubLabels c)"
      and "\<forall>c \<in> set (allCharts ms). \<not> (HasSuffix (Name c) ''-crd'' \<and> GenerateIssue c)"
      and "set (declaredNames ms) = dom (Entries index)"
      and "dom (Entries index) \<noteq> {}"
      and "rangeOrder ks1 (dom (Entries index))"
      and "rangeOrder ks2 (set (declaredNames ms))"
  shows "validateMaintainersFile (Inr (map Some ms)) (Inr index) ks1 ks2 mp ip
           = Returned None []"
proof -
  have d: "distinct ks2" "set ks1 = dom (Entries index)" "set ks2 = set (declaredNames ms)"
    using assms(6,7) by (simp_all add: rangeOrder_def)
  have "findingsFrom [] (allCharts ms) = []"
    using assms(1,2,3) by (intro findingsFrom_clean) (simp_all add: declaredNames_def)
  then have a: "discoveryOrder ms = []" by (simp add: findingsFrom_discovery)
  have b: "filter (\<lambda>k. k \<notin> set (declaredNames ms)) ks1 = []"
    using d(2) assms(4) by (simp add: filter_empty_conv)
  have c: "filter (\<lambda>k. Entries index k = None) ks2 = []"
    using d(3) assms(4) by (auto simp add: filter_empty_conv)
  show ?thesis
    using assms(5) by (simp add: validate_records [OF d(1)] a crossLines_def b c)
qed

theorem consistent_registry_no_findings_witness:
  "validateMaintainersFile
       (Inr (map Some [team ''t1'' [chart ''a'' True [''x'', ''y'']],
                       team ''t2'' [chart ''b-crd'' False []]]))
       (Inr (indexOf [''a'', ''b-crd''])) [''b-crd'', ''a''] [''a'', ''b-crd'']
       ''./maintainers.yaml'' ''./charts/index.yaml''
     = Returned None []"
proof -
  let ?ms = "[team ''t1'' [chart ''a'' True [''x'', ''y'']], team ''t2'' [chart ''b-crd'' False []]]"
  have c: "allCharts ?ms = [chart ''a'' True [''x'', ''y''], chart ''b-crd'' False []]"
    by (simp add: allCharts_def team_def)
  have n: "declaredNames ?ms = [''a'', ''b-crd'']"
    unfolding declaredNames_def c by (simp add: chart_def)
  have e: "dom (Entries (indexOf [''a'', ''b-crd''])) = {''a'', ''b-crd''}"
    by (auto simp add: indexOf_def)
  have h1: "distinct (declaredNames ?ms)" unfolding n by simp
  have h2: "\<forall>c \<in> set (allCharts ?ms). distinct (GithubLabels c)"
    unfolding c by (simp add: chart_def)
  have h3: "\<forall>c \<in> set (allCharts ?ms). \<not> (HasSuffix (Name c) ''-crd'' \<and> GenerateIssue c)"
    unfolding c by (simp add: chart_def HasSuffix_def)
  have h4: "set (declaredNames ?ms) = dom (Entries (indexOf [''a'', ''b-crd'']))"
    unfolding n e by simp
  have h5: "dom (Entries (indexOf [''a'', ''b-crd''])) \<noteq> {}"
    unfolding e by simp
  have h6: "rangeOrder [''b-crd'', ''a''] (dom (Entries (indexOf [''a'', ''b-crd''])))"
    unfolding e by (auto simp add: rangeOrder_def)
  have h7: "rangeOrder [''a'', ''b-crd''] (set (declaredNames ?ms))"
    unfolding n by (simp add: rangeOrder_def)
  show ?thesis
    by (rule consistent_registry_no_findings [OF h1 h2 h3 h4 h5 h6 h7])
qed

text \<open>
  Claim C8. The findings of the per-chart checks appear in discovery order: maintainers in
  input order, the charts of a maintainer in input order, and for each chart its CRD finding,
  then its repeated labels in input order, then its ownership finding. They are the first
  lines of the output, and two runs on the same inputs print the same per-chart findings in
  the same order, whatever order the runtime enumerates the maps in.
\<close>

theorem discovery_order:
  "filter isPerChart (printedOf (validateMaintainersFile (Inr (map Some ms)) di ks1 ks2 mp ip))
     = discoveryOrder ms
   \<and> take (length (discoveryOrder ms))
        (printedOf (validateMaintainersFile (Inr (map Some ms)) di ks1 ks2 mp ip))
     = discoveryOrder ms
   \<and> filter isPerChart (printedOf (validateMaintainersFile (Inr (map Some ms)) di ks1 ks2 mp ip))
     = filter isPerChart
         (printedOf (validateMaintainersFile (Inr (map Some ms)) di ks1' ks2' mp ip))"
proof -
  have a: "filter isPerChart (printedOf (validateMaintainersFile (Inr (map Some ms)) di k1 k2 mp ip))
             = discoveryOrder ms
         \<and> take (length (discoveryOrder ms))
              (printedOf (validateMaintainersFile (Inr (map Some ms)) di k1 k2 mp ip))
             = discoveryOrder ms" for k1 k2
  proof -
    obtain tail where t: "printedOf (validateMaintainersFile (Inr (map Some ms)) di k1 k2 mp ip)
            = discoveryOrder ms @ tail" "filter isPerChart tail = []"
      using validate_printed by blast
    show ?thesis
      by (simp add: t discoveryOrder_perChart)
  qed
  show ?thesis
    using a [of ks1 ks2] a [of ks1' ks2'] by simp
qed

theorem discovery_order_witness:
  "filter isPerChart (printedOf (validateMaintainersFile
       (Inr (map Some [team ''t1'' [chart ''a-crd'' True [''p'', ''p''], chart ''b'' False []],
                       team ''t2'' [chart ''b'' False [''q'', ''r'', ''q'']]]))
       (Inr (indexOf [''z''])) [''z''] [''b'', ''a-crd'']
       ''./maintainers.yaml'' ''./charts/index.yaml''))
     = [InvalidCrdIssueFlag ''a-crd'' True, DuplicateLabel ''a-crd'' ''p'',
        DuplicateLabel ''b'' ''q'', DuplicateChartOwnership ''b'']
   \<and> filter isPerChart (printedOf (validateMaintainersFile
       (Inr (map Some [team ''t1'' [chart ''a-crd'' True [''p'', ''p''], chart ''b'' False []],
                       team ''t2'' [chart ''b'' False [''q'', ''r'', ''q'']]]))
       (Inr (indexOf [''z''])) [''z''] [''a-crd'', ''b'']
       ''./maintainers.yaml'' ''./charts/index.yaml''))
     = [InvalidCrdIssueFlag ''a-crd'' True, DuplicateLabel ''a-crd'' ''p'',
        DuplicateLabel ''b'' ''q'', DuplicateChartOwnership ''b'']"
proof -
  let ?ms = "[team ''t1'' [chart ''a-crd'' True [''p'', ''p''], chart ''b'' False []],
              team ''t2'' [chart ''b'' False [''q'', ''r'', ''q'']]]"
  have d: "discoveryOrder ?ms
             = [InvalidCrdIssueFlag ''a-crd'' True, DuplicateLabel ''a-crd'' ''p'',
                DuplicateLabel ''b'' ''q'', DuplicateChartOwnership ''b'']"
    by (simp add: discoveryOrder_def declaredNames_def allCharts_def team_def chart_def
          chartFindings_def repeatedLabels_def HasSuffix_def upt_rec)
  show ?thesis
    using discovery_order [of ?ms "Inr (indexOf [''z''])" "[''z'']" "[''b'', ''a-crd'']"
            "''./maintainers.yaml''" "''./charts/index.yaml''" "[''z'']" "[''a-crd'', ''b'']"]
    by (simp only: d) metis
qed

text \<open>
  Claim C9. When the index file cannot be decoded, the run prints the per-chart findings and
  the decode error and then panics on the nil index pointer at the empty-index check: it
  neither runs the cross-document checks nor returns an error.
\<close>

theorem undecoded_index_panics:
  "validateMaintainersFile (Inr (map Some ms)) (Inl err :: string + 'v IndexFile) ks1 ks2 mp ip
     = Panicked (discoveryOrder ms @ [DecodeError err])
   \<and> validateMaintainersFile (Inl merr) (Inl err :: string + 'v IndexFile) ks1 ks2 mp ip
     = Panicked [DecodeError merr, DecodeError err]"
  by (simp add: validate_undecoded_index) (simp add: validateMaintainersFile_def)

theorem undecoded_index_panics_witness:
  "validateMaintainersFile
       (Inr (map Some [team ''t1'' [chart ''a-crd'' True []]]))
       (Inl ''open ./charts/index.yaml: no such file or directory'' :: string + unit IndexFile)
       [] [''a-crd''] ''./maintainers.yaml'' ''./charts/index.yaml''
     = Panicked [InvalidCrdIssueFlag ''a-crd'' True,
                 DecodeError ''open ./charts/index.yaml: no such file or directory'']"
proof -
  have d: "discoveryOrder [team ''t1'' [chart ''a-crd'' True []]]
             = [InvalidCrdIssueFlag ''a-crd'' True]"
    by (simp add: discoveryOrder_def declaredNames_def allCharts_def team_def chart_def
          chartFindings_def repeatedLabels_def HasSuffix_def)
  show ?thesis
    using undecoded_index_panics [of "[team ''t1'' [chart ''a-crd'' True []]]"
            "''open ./charts/index.yaml: no such file or directory''" "[]" "[''a-crd'']"
            "''./maintainers.yaml''" "''./charts/index.yaml''" "[]", where ?'v = unit]
    by (simp only: d) simp
qed

text \<open>
  Claim C10. When the decoded index has no entries, the run prints the single \<open>EmptyIndex\<close>
  finding, one \<open>MissingFromIndex\<close> finding for each of the \<open>n\<close> distinct declared chart
  names (so \<open>n\<close> of them, and none for any other name), and no \<open>MissingFromMaintainers\<close>
  finding. Here \<open>ks2\<close> is an enumeration of the map \<open>maintainersCharts\<close> that the loop over
  the maintainers has built, in any order; that this map holds exactly the declared names
  is part of what is proved.
\<close>

theorem empty_index_keeps_membership_checks:
  assumes "dom (Entries index) = {}"
      and "rangeOrder ks1 (dom (Entries index))"
      and "maintainersLoop (map Some ms)
             \<lparr> maintainersCharts = {}, duplicateCharts = {}, printed = [] \<rparr> = Inr st"
      and "rangeOrder ks2 (maintainersCharts st)"
  shows "filter isEmptyIndex
           (printedOf (validateMaintainersFile (Inr (map Some ms)) (Inr index) ks1 ks2 mp ip))
         = [EmptyIndex ip]
       \<and> filter isMissingFromIndex
           (printedOf (validateMaintainersFile (Inr (map Some ms)) (Inr index) ks1 ks2 mp ip))
         = map (\<lambda>k. MissingFromIndex k ip) ks2
       \<and> length (filter isMissingFromIndex
           (printedOf (validateMaintainersFile (Inr (map Some ms)) (Inr index) ks1 ks2 mp ip)))
         = card (set (declaredNames ms))
       \<and> count_list
           (printedOf (validateMaintainersFile (Inr (map Some ms)) (Inr index) ks1 ks2 mp ip))
           (MissingFromIndex n ip)
         = (if n \<in> set (declaredNames ms) then 1 else 0)
       \<and> filter isMissingFromMaintainers
           (printedOf (validateMaintainersFile (Inr (map Some ms)) (Inr index) ks1 ks2 mp ip))
         = []"
proof -
  have m: "maintainersCharts st = set (declaredNames ms)"
    by (rule collected_charts [OF assms(3)])
  have d: "distinct ks2" "ks1 = []" "set ks2 = set (declaredNames ms)"
    using assms(1,2,4) m by (simp_all add: rangeOrder_def)
  have e: "Entries index k = None" for k
    using assms(1) by auto
  have out: "printedOf (validateMaintainersFile (Inr (map Some ms)) (Inr index) ks1 ks2 mp ip)
        = discoveryOrder ms @ EmptyIndex ip # map (\<lambda>k. MissingFromIndex k ip) ks2"
    using assms(1) by (simp add: validate_records [OF d(1)] crossLines_def d(2) e)
  have l: "length ks2 = card (set (declaredNames ms))"
    using distinct_card [OF d(1)] d(3) by simp
  have "filter isMissingFromIndex (discoveryOrder ms) = []"
    by (rule perChart_only(3) [OF discoveryOrder_perChart])
  then have "MissingFromIndex n ip \<notin> set (discoveryOrder ms)"
    by (auto simp add: filter_empty_conv)
  then have c0: "count_list (discoveryOrder ms) (MissingFromIndex n ip) = 0"
    by (rule count_notin)
  have "inj (\<lambda>k. MissingFromIndex k ip)" by (simp add: inj_def)
  then have c1: "count_list (map (\<lambda>k. MissingFromIndex k ip) ks2) (MissingFromIndex n ip)
                  = count_list ks2 n"
    by (rule count_list_map_conv)
  have c2: "count_list ks2 n = (if n \<in> set (declaredNames ms) then 1 else 0)"
    using count_list_distinct [OF d(1), of n] d(3) by simp
  have cnt: "count_list
           (printedOf (validateMaintainersFile (Inr (map Some ms)) (Inr index) ks1 ks2 mp ip))
           (MissingFromIndex n ip)
         = (if n \<in> set (declaredNames ms) then 1 else 0)"
    unfolding out using c0 c1 c2 by simp
  have rest: "filter isEmptyIndex
           (printedOf (validateMaintainersFile (Inr (map Some ms)) (Inr index) ks1 ks2 mp ip))
         = [EmptyIndex ip]
       \<and> filter isMissingFromIndex
           (printedOf (validateMaintainersFile (Inr (map Some ms)) (Inr index) ks1 ks2 mp ip))
         = map (\<lambda>k. MissingFromIndex k ip) ks2
       \<and> length (filter isMissingFromIndex
           (printedOf (validateMaintainersFile (Inr (map Some ms)) (Inr index) ks1 ks2 mp ip)))
         = card (set (declaredNames ms))
       \<and> filter isMissingFromMaintainers
           (printedOf (validateMaintainersFile (Inr (map Some ms)) (Inr index) ks1 ks2 mp ip))
         = []"
    by (simp add: out perChart_only [OF discoveryOrder_perChart] filter_map comp_def l)
  show ?thesis
    using rest cnt by blast
qed

theorem empty_index_keeps_membership_checks_witness:
  "dom (Entries (indexOf [])) = {}
   \<and> rangeOrder [] (dom (Entries (indexOf [])))
   \<and> maintainersLoop (map Some [team ''t1'' [chart ''a'' False [], chart ''b'' False []],
                               team ''t2'' [chart ''a'' False []]])
        \<lparr> maintainersCharts = {}, duplicateCharts = {}, printed = [] \<rparr>
       = Inr \<lparr> maintainersCharts = {''a'', ''b''}, duplicateCharts = {''a''},
               printed = [DuplicateChartOwnership ''a''] \<rparr>
   \<and> rangeOrder [''b'', ''a'']
        (maintainersCharts \<lparr> maintainersCharts = {''a'', ''b''}, duplicateCharts = {''a''},
                             printed = [DuplicateChartOwnership ''a''] \<rparr>)
   \<and> filter isEmptyIndex (printedOf (validateMaintainersFile
       (Inr (map Some [team ''t1'' [chart ''a'' False [], chart ''b'' False []],
                       team ''t2'' [chart ''a'' False []]]))
       (Inr (indexOf [])) [] [''b'', ''a''] ''./maintainers.yaml'' ''./charts/index.yaml''))
     = [EmptyIndex ''./charts/index.yaml'']
   \<and> filter isMissingFromIndex (printedOf (validateMaintainersFile
       (Inr (map Some [team ''t1'' [chart ''a'' False [], chart ''b'' False []],
                       team ''t2'' [chart ''a'' False []]]))
       (Inr (indexOf [])) [] [''b'', ''a''] ''./maintainers.yaml'' ''./charts/index.yaml''))
     = [MissingFromIndex ''b'' ''./charts/index.yaml'', MissingFromIndex ''a'' ''./charts/index.yaml'']
   \<and> length (filter isMissingFromIndex (printedOf (validateMaintainersFile
       (Inr (map Some [team ''t1'' [chart ''a'' False [], chart ''b'' False []],
                       team ''t2'' [chart ''a'' False []]]))
       (Inr (indexOf [])) [] [''b'', ''a''] ''./maintainers.yaml'' ''./charts/index.yaml'')))
     = 2
   \<and> count_list (printedOf (validateMaintainersFile
       (Inr (map Some [team ''t1'' [chart ''a'' False [], chart ''b'' False []],
                       team ''t2'' [chart ''a'' False []]]))
       (Inr (indexOf [])) [] [''b'', ''a''] ''./maintainers.yaml'' ''./charts/index.yaml''))
       (MissingFromIndex ''a'' ''./charts/index.yaml'') = 1
   \<and> filter isMissingFromMaintainers (printedOf (validateMaintainersFile
       (Inr (map Some [team ''t1'' [chart ''a'' False [], chart ''b'' False []],
                       team ''t2'' [chart ''a'' False []]]))
       (Inr (indexOf [])) [] [''b'', ''a''] ''./maintainers.yaml'' ''./charts/index.yaml''))
     = []"
proof -
  let ?ms = "[team ''t1'' [chart ''a'' False [], chart ''b'' False []],
              team ''t2'' [chart ''a'' False []]]"
  let ?st = "\<lparr> maintainersCharts = {''a'', ''b''}, duplicateCharts = {''a''},
               printed = [DuplicateChartOwnership ''a''] \<rparr>"
  have n: "declaredNames ?ms = [''a'', ''b'', ''a'']"
    by (simp add: declaredNames_def allCharts_def team_def chart_def)
  have h1: "dom (Entries (indexOf [])) = {}"
    by (simp add: indexOf_def)
  have h2: "rangeOrder [] (dom (Entries (indexOf [])))"
    unfolding h1 by (simp add: rangeOrder_def)
  have h3: "maintainersLoop (map Some ?ms)
              \<lparr> maintainersCharts = {}, duplicateCharts = {}, printed = [] \<rparr> = Inr ?st"
    by (auto simp add: chartBody_def team_def chart_def HasSuffix_def)
  have h4: "rangeOrder [''b'', ''a''] (maintainersCharts ?st)"
    by (auto simp add: rangeOrder_def)
  have s: "set (declaredNames ?ms) = {''a'', ''b''}"
    unfolding n by auto
  show ?thesis
    using h1 h2 h3 h4
      empty_index_keeps_membership_checks [OF h1 h2 h3 h4, of "''./maintainers.yaml''"
            "''./charts/index.yaml''" "''a''"]
    by (simp add: s)
qed

end
